theory Spec2Isabelle
  imports Complex_Main "HOL-Library.Log_Nat"
begin

section \<open>Numbers\<close>

text \<open>
  The payment examples of the repository are TypeScript classes. Their amounts and
  balances are of type \<^verbatim>\<open>number\<close>, the binary64 format of IEEE 754: the finite values,
  the two infinities and \<^verbatim>\<open>NaN\<close>. \<open>Fin x\<close> is the finite number of value \<open>x\<close>. The
  two zeros are one value here: the program never divides by a variable and prints both
  as \<^verbatim>\<open>0\<close>, so it cannot tell them apart. Every binary64 value is a value of the type;
  \<open>Fin x\<close> for an \<open>x\<close> that binary64 does not have is one too, which no operation
  returns (\<open>is_binary64_plus\<close> and the lemmas after it), so a statement about all values
  of the type holds for all numbers of a program.

  An operation on finite numbers is the exact operation on their values followed by
  \<open>round64\<close>, the rounding to the nearest binary64 value with ties to the even
  significand: \<open>exponent x\<close> is the binade of \<open>x\<close> (\<open>2 powi e \<le> \<bar>x\<bar> < 2 powi (e + 1)\<close>),
  \<open>quantum x\<close> the exponent of the spacing of the binary64 values there (53 bits of
  significand, subnormal below \<open>2 powi (- 1022)\<close>), \<open>nearest x\<close> the multiple of that
  spacing next to \<open>x\<close>; a result of magnitude \<open>2 ^ 1024\<close> or more is an infinity.
\<close>

datatype number = NaN | Infinity | NegInfinity | Fin real

definition exponent :: "real \<Rightarrow> int" where
  "exponent x =
     (if 1 \<le> \<bar>x\<bar> then bitlen \<lfloor>\<bar>x\<bar>\<rfloor> - 1 else - bitlen (\<lceil>1 / \<bar>x\<bar>\<rceil> - 1))"

definition quantum :: "real \<Rightarrow> int" where
  "quantum x = max (exponent x) (- 1022) - 52"

definition rne :: "real \<Rightarrow> int" where
  "rne r =
     (if r - of_int \<lfloor>r\<rfloor> < 1 / 2 then \<lfloor>r\<rfloor>
      else if r - of_int \<lfloor>r\<rfloor> > 1 / 2 then \<lfloor>r\<rfloor> + 1
      else if even \<lfloor>r\<rfloor> then \<lfloor>r\<rfloor> else \<lfloor>r\<rfloor> + 1)"

definition nearest :: "real \<Rightarrow> real" where
  "nearest x = of_int (rne (x / 2 powi quantum x)) * 2 powi quantum x"

definition round64 :: "real \<Rightarrow> number" where
  "round64 x =
     (if x = 0 then Fin 0
      else if \<bar>nearest x\<bar> \<ge> 2 ^ 1024 then (if x > 0 then Infinity else NegInfinity)
      else Fin (nearest x))"

text \<open>
  The values that binary64 has: the fixed points of the rounding, the infinities and
  \<^verbatim>\<open>NaN\<close>.
\<close>

definition is_binary64 :: "number \<Rightarrow> bool" where
  "is_binary64 v = (case v of Fin x \<Rightarrow> round64 x = Fin x | _ \<Rightarrow> True)"

text \<open>
  The comparisons \<^verbatim>\<open><=\<close> and \<^verbatim>\<open><\<close> (and \<^verbatim>\<open>>\<close>, which is \<^verbatim>\<open><\<close> with the sides
  exchanged) are false as soon as one side is \<^verbatim>\<open>NaN\<close>.
\<close>

instantiation number :: "{zero, uminus, ord}"
begin

definition zero_number :: number where
  "zero_number = Fin 0"

fun uminus_number :: "number \<Rightarrow> number" where
  "uminus_number NaN = NaN"
| "uminus_number Infinity = NegInfinity"
| "uminus_number NegInfinity = Infinity"
| "uminus_number (Fin x) = Fin (- x)"

fun less_eq_number :: "number \<Rightarrow> number \<Rightarrow> bool" where
  "less_eq_number NaN b = False"
| "less_eq_number a NaN = False"
| "less_eq_number NegInfinity b = True"
| "less_eq_number a Infinity = True"
| "less_eq_number Infinity b = False"
| "less_eq_number a NegInfinity = False"
| "less_eq_number (Fin x) (Fin y) = (x \<le> y)"

fun less_number :: "number \<Rightarrow> number \<Rightarrow> bool" where
  "less_number NaN b = False"
| "less_number a NaN = False"
| "less_number a NegInfinity = False"
| "less_number Infinity b = False"
| "less_number NegInfinity b = True"
| "less_number a Infinity = True"
| "less_number (Fin x) (Fin y) = (x < y)"

instance ..

end

text \<open>
  The arithmetic of \<^verbatim>\<open>+\<close>, \<^verbatim>\<open>-\<close>, \<^verbatim>\<open>*\<close> and \<^verbatim>\<open>/\<close>. A division by zero gives the
  infinity of the sign of the dividend, as for the positive zero.
\<close>

instantiation number :: "{plus, minus, times, inverse}"
begin

fun plus_number :: "number \<Rightarrow> number \<Rightarrow> number" where
  "plus_number NaN b = NaN"
| "plus_number a NaN = NaN"
| "plus_number Infinity NegInfinity = NaN"
| "plus_number NegInfinity Infinity = NaN"
| "plus_number Infinity b = Infinity"
| "plus_number a Infinity = Infinity"
| "plus_number NegInfinity b = NegInfinity"
| "plus_number a NegInfinity = NegInfinity"
| "plus_number (Fin x) (Fin y) = round64 (x + y)"

definition minus_number :: "number \<Rightarrow> number \<Rightarrow> number" where
  "minus_number a b = a + (- b)"

fun times_number :: "number \<Rightarrow> number \<Rightarrow> number" where
  "times_number NaN b = NaN"
| "times_number a NaN = NaN"
| "times_number (Fin x) (Fin y) = round64 (x * y)"
| "times_number a b =
     (if a = 0 \<or> b = 0 then NaN
      else if (0 < a) = (0 < b) then Infinity else NegInfinity)"

fun divide_number :: "number \<Rightarrow> number \<Rightarrow> number" where
  "divide_number NaN b = NaN"
| "divide_number a NaN = NaN"
| "divide_number (Fin x) (Fin y) =
     (if y = 0 then (if x = 0 then NaN else if 0 < x then Infinity else NegInfinity)
      else round64 (x / y))"
| "divide_number (Fin x) b = Fin 0"
| "divide_number a (Fin y) = (if (0 < a) = (0 \<le> y) then Infinity else NegInfinity)"
| "divide_number a b = NaN"

definition inverse_number :: "number \<Rightarrow> number" where
  "inverse_number a = divide (Fin 1) a"

instance ..

end

text \<open>
  A number written in the source is the binary64 value nearest to the decimal: for an
  integer as small as those of the source that is the integer itself (\<open>Fin 1000\<close>), for
  \<^verbatim>\<open>0.03\<close> and \<^verbatim>\<open>0.1\<close> it is \<open>round64 0.03\<close> and \<open>round64 0.1\<close>.
\<close>

section \<open>Console output and exceptions\<close>

text \<open>
  A call of a method can print lines, change the fields of its object and then either
  return a value or throw. All three are kept: \<open>printed\<close> holds the lines of
  \<^verbatim>\<open>console.log\<close> in order, \<open>state_after\<close> the object after the call, and
  \<open>returned\<close> is \<open>Inr v\<close> for \<^verbatim>\<open>return v\<close> and \<open>Inl (Error msg)\<close> for
  \<^verbatim>\<open>throw new Error(msg)\<close>. A printed line is its fixed text, followed by the number
  the template interpolates when there is one (the rendering of the number is not modelled).
\<close>

datatype console_line = Text string | TextNum string number

datatype exn = Error string

record ('r, 's) call =
  printed :: "console_line list"
  state_after :: 's
  returned :: "exn + 'r"

section \<open>Open/Closed example: \<^verbatim>\<open>PaymentMethod\<close> with \<^verbatim>\<open>validatePayment\<close>\<close>

text \<open>
  \<^verbatim>\<open>Solid Principle/openClosed/index.md\<close>, the OCP-compliant approach. The interface has
  \<^verbatim>\<open>processPayment(amount): void\<close> and \<^verbatim>\<open>validatePayment(amount): boolean\<close>; the four
  classes have no fields. The currency signs of the UPI and Bitcoin lines are not ASCII
  and are left out of the fixed text.
\<close>

record OCP_PaymentMethod =
  OCP_processPayment :: "number \<Rightarrow> console_line list"
  validatePayment :: "number \<Rightarrow> bool"

definition OCP_CreditCardPayment :: OCP_PaymentMethod where
  "OCP_CreditCardPayment =
     \<lparr> OCP_processPayment = (\<lambda>amount. [TextNum ''Processing credit card payment of $'' amount]),
       validatePayment = (\<lambda>amount. amount > 0 \<and> amount \<le> Fin 10000) \<rparr>"

definition OCP_PayPalPayment :: OCP_PaymentMethod where
  "OCP_PayPalPayment =
     \<lparr> OCP_processPayment = (\<lambda>amount. [TextNum ''Processing PayPal payment of $'' amount]),
       validatePayment = (\<lambda>amount. amount > 0) \<rparr>"

definition OCP_UPIPayment :: OCP_PaymentMethod where
  "OCP_UPIPayment =
     \<lparr> OCP_processPayment = (\<lambda>amount. [TextNum ''Processing UPI payment of '' amount]),
       validatePayment = (\<lambda>amount. amount > 0 \<and> amount \<le> Fin 100000) \<rparr>"

definition OCP_BitcoinPayment :: OCP_PaymentMethod where
  "OCP_BitcoinPayment =
     \<lparr> OCP_processPayment =
         (\<lambda>amount. [TextNum ''Processing Bitcoin payment of '' (amount / Fin 50000)]),
       validatePayment = (\<lambda>amount. amount > 0) \<rparr>"

text \<open>\<^verbatim>\<open>PaymentProcessor.process(method, amount): boolean\<close>: the value and the lines printed.\<close>

definition process :: "OCP_PaymentMethod \<Rightarrow> number \<Rightarrow> bool \<times> console_line list" where
  "process method amount =
     (if validatePayment method amount
      then (True, OCP_processPayment method amount)
      else (False, []))"

text \<open>\<^verbatim>\<open>Checkout.processPayment\<close> builds a processor and delegates to it.\<close>

definition Checkout_processPayment :: "OCP_PaymentMethod \<Rightarrow> number \<Rightarrow> bool \<times> console_line list" where
  "Checkout_processPayment method amount = process method amount"

section \<open>Liskov example, the compliant approach\<close>

text \<open>
  The second half of the Liskov file (the unnamed part 001, lines 121 to 259). An object
  of the interface \<^verbatim>\<open>PaymentMethod\<close> is its fields (\<open>self\<close>) and its methods; \<^verbatim>\<open>refund\<close> and
  \<^verbatim>\<open>calculateFees\<close> belong to the extended interfaces \<^verbatim>\<open>RefundablePayment\<close> and
  \<^verbatim>\<open>FeeBasedPayment\<close>, so an object may lack them: the processor asks
  \<^verbatim>\<open>'refund' in payment\<close> and \<^verbatim>\<open>'calculateFees' in payment\<close>, which is \<open>None\<close> or
  \<open>Some\<close> here. The record is open: any implementation of the interface is a value of
  it, not only the three classes of the file.
\<close>

record 's PaymentMethod =
  self :: 's
  processPayment :: "'s \<Rightarrow> number \<Rightarrow> (bool, 's) call"
  isRefundable :: "'s \<Rightarrow> bool"
  getPaymentType :: "'s \<Rightarrow> string"
  refund :: "('s \<Rightarrow> number \<Rightarrow> (bool, 's) call) option"
  calculateFees :: "('s \<Rightarrow> number \<Rightarrow> (number, 's) call) option"

subsection \<open>\<^verbatim>\<open>CreditCardPayment implements RefundablePayment, FeeBasedPayment\<close>\<close>

definition CreditCardPayment_processPayment :: "unit \<Rightarrow> number \<Rightarrow> (bool, unit) call" where
  "CreditCardPayment_processPayment this amount =
     \<lparr> printed = [TextNum ''Processing credit card payment: $'' amount],
       state_after = this, returned = Inr True \<rparr>"

definition CreditCardPayment_refund :: "unit \<Rightarrow> number \<Rightarrow> (bool, unit) call" where
  "CreditCardPayment_refund this amount =
     \<lparr> printed = [TextNum ''Credit card refund: $'' amount],
       state_after = this, returned = Inr True \<rparr>"

definition CreditCardPayment_calculateFees :: "unit \<Rightarrow> number \<Rightarrow> (number, unit) call" where
  "CreditCardPayment_calculateFees this amount =
     \<lparr> printed = [], state_after = this, returned = Inr (amount * round64 0.03) \<rparr>"

definition CreditCardPayment :: "unit PaymentMethod" where
  "CreditCardPayment =
     \<lparr> self = (),
       processPayment = CreditCardPayment_processPayment,
       isRefundable = (\<lambda>this. True),
       getPaymentType = (\<lambda>this. ''CreditCard''),
       refund = Some CreditCardPayment_refund,
       calculateFees = Some CreditCardPayment_calculateFees \<rparr>"

subsection \<open>\<^verbatim>\<open>CashPayment implements PaymentMethod\<close>\<close>

definition CashPayment_processPayment :: "unit \<Rightarrow> number \<Rightarrow> (bool, unit) call" where
  "CashPayment_processPayment this amount =
     \<lparr> printed = [TextNum ''Processing cash payment: $'' amount],
       state_after = this, returned = Inr True \<rparr>"

definition CashPayment :: "unit PaymentMethod" where
  "CashPayment =
     \<lparr> self = (),
       processPayment = CashPayment_processPayment,
       isRefundable = (\<lambda>this. False),
       getPaymentType = (\<lambda>this. ''Cash''),
       refund = None,
       calculateFees = None \<rparr>"

subsection \<open>\<^verbatim>\<open>GiftCardPayment implements RefundablePayment\<close>\<close>

record GiftCardFields =
  balance :: number

definition GiftCardPayment_processPayment ::
  "GiftCardFields \<Rightarrow> number \<Rightarrow> (bool, GiftCardFields) call" where
  "GiftCardPayment_processPayment this amount =
     (if amount \<le> 0 then
        \<lparr> printed = [], state_after = this, returned = Inr False \<rparr>
      else if amount > balance this then
        \<lparr> printed = [], state_after = this, returned = Inr False \<rparr>
      else
        \<lparr> printed = [TextNum ''Processing gift card payment: $'' amount],
          state_after = this\<lparr>balance := balance this - amount\<rparr>,
          returned = Inr True \<rparr>)"

definition GiftCardPayment_refund ::
  "GiftCardFields \<Rightarrow> number \<Rightarrow> (bool, GiftCardFields) call" where
  "GiftCardPayment_refund this amount =
     \<lparr> printed = [TextNum ''Gift card refund: $'' amount],
       state_after = this\<lparr>balance := balance this + amount\<rparr>,
       returned = Inr True \<rparr>"

text \<open>\<^verbatim>\<open>new GiftCardPayment()\<close>: the field initialiser sets the balance to 1000.\<close>

definition GiftCardPayment :: "GiftCardFields PaymentMethod" where
  "GiftCardPayment =
     \<lparr> self = \<lparr> balance = Fin 1000 \<rparr>,
       processPayment = GiftCardPayment_processPayment,
       isRefundable = (\<lambda>this. True),
       getPaymentType = (\<lambda>this. ''GiftCard''),
       refund = Some GiftCardPayment_refund,
       calculateFees = None \<rparr>"

text \<open>
  The gift card object when its field holds \<open>b\<close>: what \<^verbatim>\<open>new GiftCardPayment()\<close> is
  after calls that changed the balance.
\<close>

abbreviation GiftCard_at :: "number \<Rightarrow> GiftCardFields PaymentMethod" where
  "GiftCard_at b \<equiv> GiftCardPayment\<lparr>self := \<lparr>balance = b\<rparr>\<rparr>"

subsection \<open>\<^verbatim>\<open>PaymentProcessor\<close>\<close>

text \<open>
  The processor has no \<^verbatim>\<open>try\<close>: an exception of a method it calls leaves the processor
  as it is, after the lines printed so far.
\<close>

definition PaymentProcessor_processPayment ::
  "'s PaymentMethod \<Rightarrow> number \<Rightarrow> (bool, 's PaymentMethod) call" where
  "PaymentProcessor_processPayment payment amount =
     (let c = processPayment payment (self payment) amount;
          payment1 = payment\<lparr>self := state_after c\<rparr>
      in case returned c of
           Inl e \<Rightarrow> \<lparr> printed = printed c, state_after = payment1, returned = Inl e \<rparr>
         | Inr success \<Rightarrow>
             if success then
               (let out = printed c @
                      [Text (getPaymentType payment1 (self payment1) @ '' payment successful'')]
                in case calculateFees payment1 of
                     None \<Rightarrow> \<lparr> printed = out, state_after = payment1, returned = Inr success \<rparr>
                   | Some calc \<Rightarrow>
                       (let f = calc (self payment1) amount;
                            payment2 = payment1\<lparr>self := state_after f\<rparr>
                        in case returned f of
                             Inl e \<Rightarrow>
                               \<lparr> printed = out @ printed f, state_after = payment2,
                                 returned = Inl e \<rparr>
                           | Inr fees \<Rightarrow>
                               \<lparr> printed = out @ printed f @ [TextNum ''Fees: $'' fees],
                                 state_after = payment2, returned = Inr success \<rparr>))
             else \<lparr> printed = printed c, state_after = payment1, returned = Inr success \<rparr>)"

definition processRefund ::
  "'s PaymentMethod \<Rightarrow> number \<Rightarrow> (bool, 's PaymentMethod) call" where
  "processRefund payment amount =
     (if \<not> isRefundable payment (self payment) then
        \<lparr> printed = [Text (getPaymentType payment (self payment) @
                           '' payments are not refundable'')],
          state_after = payment, returned = Inr False \<rparr>
      else case refund payment of
             Some rf \<Rightarrow>
               (let c = rf (self payment) amount
                in \<lparr> printed = printed c, state_after = payment\<lparr>self := state_after c\<rparr>,
                     returned = returned c \<rparr>)
           | None \<Rightarrow> \<lparr> printed = [], state_after = payment, returned = Inr False \<rparr>)"

subsection \<open>A caller's sequence of requests\<close>

text \<open>
  The usage section of the file calls the processor several times on the same objects.
  \<open>run\<close> is such a caller: it sends the requests to one object in order, collects
  the booleans returned, and stops at the first exception, which nothing catches.
\<close>

datatype request = Process number | Refund number

definition send :: "'s PaymentMethod \<Rightarrow> request \<Rightarrow> (bool, 's PaymentMethod) call" where
  "send payment r =
     (case r of
        Process amount \<Rightarrow> PaymentProcessor_processPayment payment amount
      | Refund amount \<Rightarrow> processRefund payment amount)"

fun run :: "'s PaymentMethod \<Rightarrow> request list \<Rightarrow> (bool list, 's PaymentMethod) call" where
  "run payment [] = \<lparr> printed = [], state_after = payment, returned = Inr [] \<rparr>"
| "run payment (r # rs) =
     (let c = send payment r
      in case returned c of
           Inl e \<Rightarrow> \<lparr> printed = printed c, state_after = state_after c, returned = Inl e \<rparr>
         | Inr ok \<Rightarrow>
             (let d = run (state_after c) rs
              in \<lparr> printed = printed c @ printed d, state_after = state_after d,
                   returned = (case returned d of Inl e \<Rightarrow> Inl e | Inr oks \<Rightarrow> Inr (ok # oks)) \<rparr>))"

section \<open>Liskov example, the violation\<close>

text \<open>
  The first half of the same file (lines 36 to 117), which the file presents as the
  design to avoid. \<^verbatim>\<open>PaymentMethod\<close> is an abstract class there: \<^verbatim>\<open>processPayment\<close>
  is abstract, \<^verbatim>\<open>refund\<close> and \<^verbatim>\<open>calculateFees\<close> have bodies that a subclass inherits
  or overrides, so every object has all three.
\<close>

record 's Bad_PaymentMethod =
  Bad_self :: 's
  Bad_processPayment :: "'s \<Rightarrow> number \<Rightarrow> (bool, 's) call"
  Bad_refund :: "'s \<Rightarrow> number \<Rightarrow> (bool, 's) call"
  Bad_calculateFees :: "'s \<Rightarrow> number \<Rightarrow> (number, 's) call"

definition Bad_PaymentMethod_refund :: "'s \<Rightarrow> number \<Rightarrow> (bool, 's) call" where
  "Bad_PaymentMethod_refund this amount =
     \<lparr> printed = [TextNum ''Refunding $'' amount], state_after = this, returned = Inr True \<rparr>"

definition Bad_PaymentMethod_calculateFees :: "'s \<Rightarrow> number \<Rightarrow> (number, 's) call" where
  "Bad_PaymentMethod_calculateFees this amount =
     \<lparr> printed = [], state_after = this, returned = Inr (amount * round64 0.03) \<rparr>"

definition Bad_CreditCardPayment :: "unit Bad_PaymentMethod" where
  "Bad_CreditCardPayment =
     \<lparr> Bad_self = (),
       Bad_processPayment = (\<lambda>this amount.
         \<lparr> printed = [TextNum ''Processing credit card payment: $'' amount],
           state_after = this, returned = Inr True \<rparr>),
       Bad_refund = (\<lambda>this amount.
         \<lparr> printed = [TextNum ''Credit card refund: $'' amount],
           state_after = this, returned = Inr True \<rparr>),
       Bad_calculateFees = Bad_PaymentMethod_calculateFees \<rparr>"

definition Bad_CashPayment :: "unit Bad_PaymentMethod" where
  "Bad_CashPayment =
     \<lparr> Bad_self = (),
       Bad_processPayment = (\<lambda>this amount.
         \<lparr> printed = [TextNum ''Processing cash payment: $'' amount],
           state_after = this, returned = Inr True \<rparr>),
       Bad_refund = (\<lambda>this amount.
         \<lparr> printed = [], state_after = this,
           returned = Inl (Error ''Cash payments cannot be refunded!'') \<rparr>),
       Bad_calculateFees = (\<lambda>this amount.
         \<lparr> printed = [], state_after = this, returned = Inr 0 \<rparr>) \<rparr>"

definition Bad_GiftCardPayment_processPayment ::
  "GiftCardFields \<Rightarrow> number \<Rightarrow> (bool, GiftCardFields) call" where
  "Bad_GiftCardPayment_processPayment this amount =
     (if amount > balance this then
        \<lparr> printed = [], state_after = this,
          returned = Inl (Error ''Insufficient gift card balance!'') \<rparr>
      else
        \<lparr> printed = [TextNum ''Processing gift card payment: $'' amount],
          state_after = this\<lparr>balance := balance this - amount\<rparr>,
          returned = Inr True \<rparr>)"

definition Bad_GiftCardPayment :: "GiftCardFields Bad_PaymentMethod" where
  "Bad_GiftCardPayment =
     \<lparr> Bad_self = \<lparr> balance = Fin 1000 \<rparr>,
       Bad_processPayment = Bad_GiftCardPayment_processPayment,
       Bad_refund = Bad_PaymentMethod_refund,
       Bad_calculateFees = Bad_PaymentMethod_calculateFees \<rparr>"

text \<open>
  \<^verbatim>\<open>PaymentProcessor.processWithRefund(payment, amount): void\<close>. The value of
  \<^verbatim>\<open>payment.refund\<close> is dropped; an exception of any of the three calls is not caught.
\<close>

definition processWithRefund ::
  "'s Bad_PaymentMethod \<Rightarrow> number \<Rightarrow> (unit, 's Bad_PaymentMethod) call" where
  "processWithRefund payment amount =
     (let c = Bad_processPayment payment (Bad_self payment) amount;
          payment1 = payment\<lparr>Bad_self := state_after c\<rparr>
      in case returned c of
           Inl e \<Rightarrow> \<lparr> printed = printed c, state_after = payment1, returned = Inl e \<rparr>
         | Inr success \<Rightarrow>
             if success then
               (let out = printed c @ [Text ''Payment successful''];
                    r = Bad_refund payment1 (Bad_self payment1) (amount * round64 0.1);
                    payment2 = payment1\<lparr>Bad_self := state_after r\<rparr>
                in case returned r of
                     Inl e \<Rightarrow>
                       \<lparr> printed = out @ printed r, state_after = payment2, returned = Inl e \<rparr>
                   | Inr refunded \<Rightarrow>
                       (let f = Bad_calculateFees payment2 (Bad_self payment2) amount;
                            payment3 = payment2\<lparr>Bad_self := state_after f\<rparr>
                        in case returned f of
                             Inl e \<Rightarrow>
                               \<lparr> printed = out @ printed r @ printed f,
                                 state_after = payment3, returned = Inl e \<rparr>
                           | Inr fees \<Rightarrow>
                               \<lparr> printed = out @ printed r @ printed f @
                                           [TextNum ''Fees: $'' fees],
                                 state_after = payment3, returned = Inr () \<rparr>))
             else \<lparr> printed = printed c, state_after = payment1, returned = Inr () \<rparr>)"

section \<open>The validation contract in the specification's words\<close>



section \<open>The fee query of the specification\<close>

text \<open>
  Modelled from the spec: \<^verbatim>\<open>getFees(methodId, amount)\<close>, which the repository does not
  have (its processor computes a fee only inside \<^verbatim>\<open>processPayment\<close>, to print it). The
  specification: it returns 0 if the method lacks the fee capability, never an error,
  and else delegates to \<^verbatim>\<open>calculateFees\<close>.
\<close>

definition getFees :: "'s PaymentMethod \<Rightarrow> number \<Rightarrow> (number, 's PaymentMethod) call" where
  "getFees payment amount =
     (case calculateFees payment of
        None \<Rightarrow> \<lparr> printed = [], state_after = payment, returned = Inr 0 \<rparr>
      | Some calc \<Rightarrow>
          (let f = calc (self payment) amount
           in \<lparr> printed = printed f, state_after = payment\<lparr>self := state_after f\<rparr>,
                returned = returned f \<rparr>))"

section \<open>Properties of the numbers\<close>

text \<open>The definitions that evaluate an operation on given numbers.\<close>

lemmas round64_eval =
  round64_def nearest_def quantum_def exponent_def rne_def compute_bitlen zero_number_def
  minus_number_def

lemma less_not_less_eq: "(a::number) < b \<Longrightarrow> \<not> b \<le> a"
  by (cases a; cases b) simp_all

lemma less_eq_not_less: "(a::number) \<le> b \<Longrightarrow> \<not> b < a"
  by (cases a; cases b) simp_all

lemma rne_nonneg: "0 \<le> r \<Longrightarrow> 0 \<le> rne r"
proof -
  assume "0 \<le> r"
  then have "0 \<le> \<lfloor>r\<rfloor>" by simp
  then show ?thesis by (simp add: rne_def)
qed

lemma nearest_nonneg: "0 \<le> x \<Longrightarrow> 0 \<le> nearest x"
  by (simp add: nearest_def rne_nonneg)

lemma round64_nonneg: "0 \<le> x \<Longrightarrow> \<not> round64 x < 0"
  using nearest_nonneg [of x] by (simp add: round64_def zero_number_def)

subsection \<open>The binade and the rounding to an integer\<close>

lemma powi_nonneg_eq: "0 \<le> k \<Longrightarrow> (2::real) powi k = of_int (2 ^ nat k)"
  by (simp add: power_int_def)

lemma exponent_bounds:
  assumes "x \<noteq> 0"
  shows "2 powi exponent x \<le> \<bar>x\<bar> \<and> \<bar>x\<bar> < 2 powi (exponent x + 1)"
proof (cases "1 \<le> \<bar>x\<bar>")
  case True
  define n where "n = \<lfloor>\<bar>x\<bar>\<rfloor>"
  from True have n1: "1 \<le> n" by (simp add: n_def le_floor_iff)
  then have npos: "0 < n" by simp
  from bitlen_bounds [OF npos]
  have lo: "2 ^ nat (bitlen n - 1) \<le> n" and hi: "n < 2 ^ nat (bitlen n)" by simp_all
  have b1: "1 \<le> bitlen n"
    using npos by (simp add: bitlen_alt_def)
  have e: "exponent x = bitlen n - 1"
    using True by (simp add: exponent_def n_def)
  have "2 powi (bitlen n - 1) = (of_int (2 ^ nat (bitlen n - 1)) :: real)"
    using b1 by (simp add: powi_nonneg_eq)
  also have "\<dots> \<le> of_int n" using lo by (simp only: of_int_le_iff)
  also have "\<dots> \<le> \<bar>x\<bar>" by (simp add: n_def)
  finally have A: "2 powi exponent x \<le> \<bar>x\<bar>" by (simp add: e)
  have "n + 1 \<le> 2 ^ nat (bitlen n)" using hi by simp
  then have "(of_int (n + 1) :: real) \<le> of_int (2 ^ nat (bitlen n))"
    by (simp only: of_int_le_iff)
  moreover have "\<bar>x\<bar> < of_int (n + 1)" by (simp add: n_def)
  moreover have "2 powi (bitlen n) = (of_int (2 ^ nat (bitlen n)) :: real)"
    using b1 by (simp add: powi_nonneg_eq)
  ultimately have B: "\<bar>x\<bar> < 2 powi (exponent x + 1)" by (simp add: e)
  from A B show ?thesis ..
next
  case False
  then have lt1: "\<bar>x\<bar> < 1" by simp
  from assms have xpos: "0 < \<bar>x\<bar>" by simp
  define n where "n = \<lceil>1 / \<bar>x\<bar>\<rceil>"
  have inv_gt: "1 < 1 / \<bar>x\<bar>" using lt1 xpos by simp
  then have n2: "2 \<le> n" unfolding n_def by linarith
  then have npos: "0 < n - 1" by simp
  define k where "k = bitlen (n - 1)"
  from bitlen_bounds [OF npos]
  have lo: "2 ^ nat (k - 1) \<le> n - 1" and hi: "n - 1 < 2 ^ nat k" by (simp_all add: k_def)
  have k1: "1 \<le> k" using npos by (simp add: k_def bitlen_alt_def)
  have e: "exponent x = - k"
    using False by (simp add: exponent_def n_def k_def)
  have pk: "(2::real) powi (- k) = 1 / of_int (2 ^ nat k)"
    using k1 by (simp add: power_int_def field_simps)
  have pk1: "(2::real) powi (1 - k) = 1 / of_int (2 ^ nat (k - 1))"
  proof (cases "k = 1")
    case True
    then show ?thesis by simp
  next
    case False
    with k1 have "1 - k < 0" by simp
    moreover have "nat (k - 1) = nat (- (1 - k))" by simp
    ultimately show ?thesis by (simp add: power_int_def field_simps)
  qed
  have "n \<le> 2 ^ nat k" using hi by simp
  then have "(of_int n :: real) \<le> of_int (2 ^ nat k)" by (simp only: of_int_le_iff)
  moreover have "1 / \<bar>x\<bar> \<le> of_int n" by (simp add: n_def)
  ultimately have "1 / \<bar>x\<bar> \<le> of_int (2 ^ nat k)" by linarith
  then have A: "1 / of_int (2 ^ nat k) \<le> \<bar>x\<bar>"
    using xpos by (simp add: field_simps)
  have "of_int (n - 1) < 1 / \<bar>x\<bar>" unfolding n_def by linarith
  moreover have "(of_int (2 ^ nat (k - 1)) :: real) \<le> of_int (n - 1)"
    using lo by (simp only: of_int_le_iff)
  ultimately have "(of_int (2 ^ nat (k - 1)) :: real) < 1 / \<bar>x\<bar>" by linarith
  then have B: "\<bar>x\<bar> < 1 / of_int (2 ^ nat (k - 1))"
    using xpos by (simp add: field_simps)
  from A B show ?thesis by (simp add: e pk pk1)
qed

lemma exponent_mono:
  assumes "x \<noteq> 0" "\<bar>x\<bar> \<le> \<bar>y\<bar>"
  shows "exponent x \<le> exponent y"
proof -
  from assms have "y \<noteq> 0" by auto
  from exponent_bounds [OF assms(1)] exponent_bounds [OF this] assms(2)
  have "(2::real) powi exponent x < 2 powi (exponent y + 1)" by linarith
  then have "exponent x < exponent y + 1"
    by (metis linorder_not_less one_le_numeral power_int_increasing)
  then show ?thesis by simp
qed

lemma rne_le: "r \<le> of_int k \<Longrightarrow> rne r \<le> k"
proof -
  assume a: "r \<le> of_int k"
  then have f: "\<lfloor>r\<rfloor> \<le> k" by (simp add: floor_le_iff) 
  show ?thesis
  proof (cases "r = of_int \<lfloor>r\<rfloor>")
    case True
    then have "r - of_int \<lfloor>r\<rfloor> < 1 / 2" by simp
    with f show ?thesis by (simp add: rne_def)
  next
    case False
    have "of_int \<lfloor>r\<rfloor> \<le> r" by simp
    with False have "of_int \<lfloor>r\<rfloor> < r" by linarith
    with a have "(of_int \<lfloor>r\<rfloor> :: real) < of_int k" by linarith
    then have "\<lfloor>r\<rfloor> < k" by (simp only: of_int_less_iff)
    then show ?thesis by (simp add: rne_def)
  qed
qed

lemma rne_ge: "of_int k \<le> r \<Longrightarrow> k \<le> rne r"
proof -
  assume "of_int k \<le> r"
  then have "k \<le> \<lfloor>r\<rfloor>" by (simp add: le_floor_iff)
  then show ?thesis by (simp add: rne_def)
qed

subsection \<open>A rounded value is never beyond a binary64 value on the same side\<close>

lemma powi_pos: "0 < (2::real) powi k"
  by simp

lemma nearest_le:
  assumes "x \<le> of_int k * 2 powi quantum x"
  shows "nearest x \<le> of_int k * 2 powi quantum x"
proof -
  from assms have "x / 2 powi quantum x \<le> of_int k"
    by (simp add: field_simps)
  then have "rne (x / 2 powi quantum x) \<le> k" by (rule rne_le)
  then have "(of_int (rne (x / 2 powi quantum x)) :: real) \<le> of_int k"
    by (simp only: of_int_le_iff)
  then show ?thesis
    unfolding nearest_def by (rule mult_right_mono) simp
qed

lemma nearest_nonpos: "x \<le> 0 \<Longrightarrow> nearest x \<le> 0"
  using nearest_le [of x 0] by simp

lemma round64_fixed:
  assumes "round64 b = Fin b"
  shows "nearest b = b" and "\<bar>b\<bar> < 2 ^ 1024"
proof -
  show "nearest b = b"
  proof (cases "b = 0")
    case True
    then show ?thesis by (simp add: nearest_def rne_def)
  next
    case False
    with assms show ?thesis
      by (simp add: round64_def split: if_splits)
  qed
  show "\<bar>b\<bar> < 2 ^ 1024"
  proof (cases "b = 0")
    case True
    then show ?thesis by simp
  next
    case False
    with assms have "\<not> \<bar>nearest b\<bar> \<ge> 2 ^ 1024" and "nearest b = b"
      by (simp_all add: round64_def split: if_splits)
    then show ?thesis by simp
  qed
qed

lemma round64_leI:
  assumes "nearest x \<le> b" "x \<le> b" "\<bar>b\<bar> < 2 ^ 1024"
  shows "round64 x \<le> Fin b"
proof (cases "x = 0")
  case True
  with assms(2) show ?thesis by (simp add: round64_def)
next
  case False
  show ?thesis
  proof (cases "0 < x")
    case True
    then have "0 \<le> nearest x" by (simp add: nearest_nonneg)
    with assms(1,3) have "\<not> \<bar>nearest x\<bar> \<ge> 2 ^ 1024" by simp
    with False assms(1) show ?thesis by (simp add: round64_def)
  next
    case neg: False
    with False assms(1) show ?thesis by (simp add: round64_def)
  qed
qed

lemma quantum_mono:
  assumes "x \<noteq> 0" "\<bar>x\<bar> \<le> \<bar>y\<bar>"
  shows "quantum x \<le> quantum y"
  using exponent_mono [OF assms] by (simp add: quantum_def)

lemma nearest_le_binary64:
  assumes b: "nearest b = b" and xb: "x \<le> b" and x0: "x \<noteq> 0"
  shows "nearest x \<le> b"
proof -
  consider "x < 0" "0 \<le> b" | "0 < x" | "x < 0" "b < 0"
    using x0 by linarith
  then show ?thesis
  proof cases
    case 1
    then have "nearest x \<le> 0" by (simp add: nearest_nonpos)
    with 1 show ?thesis by simp
  next
    case 2
    with xb have "\<bar>x\<bar> \<le> \<bar>b\<bar>" by simp
    from quantum_mono [OF x0 this] have q: "quantum x \<le> quantum b" .
    define m where "m = rne (b / 2 powi quantum b)"
    define d where "d = nat (quantum b - quantum x)"
    have "(2::real) powi quantum b = 2 powi (quantum b - quantum x) * 2 powi quantum x"
      by (simp flip: power_int_add)
    also have "(2::real) powi (quantum b - quantum x) = of_int (2 ^ d)"
      using q by (simp add: powi_nonneg_eq d_def)
    finally have "(2::real) powi quantum b = of_int (2 ^ d) * 2 powi quantum x" .
    moreover have "b = of_int m * 2 powi quantum b"
      using b by (simp add: nearest_def m_def)
    ultimately have "b = of_int (m * 2 ^ d) * 2 powi quantum x" by simp
    with xb nearest_le [of x "m * 2 ^ d"] show ?thesis by simp
  next
    case 3
    then have b0: "b \<noteq> 0" and ab: "\<bar>b\<bar> \<le> \<bar>x\<bar>" using xb by simp_all
    from quantum_mono [OF b0 ab] have q: "quantum b \<le> quantum x" .
    show ?thesis
    proof (cases "quantum x = quantum b")
      case True
      define m where "m = rne (b / 2 powi quantum b)"
      have "b = of_int m * 2 powi quantum x"
        using b True by (simp add: nearest_def m_def)
      with xb nearest_le [of x m] show ?thesis by simp
    next
      case False
      with q have lt: "quantum b < quantum x" by simp
      then have ex: "- 1022 < exponent x" and eb: "exponent b < exponent x"
        by (simp_all add: quantum_def max_def split: if_splits)
      from ex have qx: "quantum x = exponent x - 52" by (simp add: quantum_def)
      have "(2::real) powi (52 + (exponent x - 52)) = 2 powi 52 * 2 powi (exponent x - 52)"
        by (rule power_int_add) simp
      then have p: "(2::real) powi exponent x = of_int (2 ^ 52) * 2 powi quantum x"
        by (simp add: qx)
      from exponent_bounds [OF x0] 3(1) have "x \<le> - (2 powi exponent x)" by simp
      with p have "x \<le> of_int (- (2 ^ 52)) * 2 powi quantum x" by simp
      from nearest_le [OF this] p have n: "nearest x \<le> - (2 powi exponent x)" by simp
      from eb have "exponent b + 1 \<le> exponent x" by simp
      then have "(2::real) powi (exponent b + 1) \<le> 2 powi exponent x"
        by (intro power_int_increasing) simp_all
      with exponent_bounds [OF b0] 3(2) have "- (2 powi exponent x) < b" by simp
      with n show ?thesis by simp
    qed
  qed
qed

lemma round64_le_binary64:
  assumes "round64 b = Fin b" "x \<le> b"
  shows "round64 x \<le> Fin b"
proof (cases "x = 0")
  case True
  with assms(2) show ?thesis by (simp add: round64_def)
next
  case False
  from round64_fixed [OF assms(1)] have b: "nearest b = b" and m: "\<bar>b\<bar> < 2 ^ 1024" .
  from nearest_le_binary64 [OF b assms(2) False] assms(2) m show ?thesis
    by (rule round64_leI)
qed

subsection \<open>Symmetry, and the results of the operations are binary64 values\<close>

lemma powi_less_imp: "(2::real) powi a < 2 powi b \<Longrightarrow> a < b"
  by (metis linorder_not_less one_le_numeral power_int_increasing)

lemma exponent_unique:
  assumes "2 powi e \<le> \<bar>y\<bar>" "\<bar>y\<bar> < 2 powi (e + 1)"
  shows "exponent y = e"
proof -
  have "0 < (2::real) powi e" by simp
  with assms(1) have "0 < \<bar>y\<bar>" by linarith
  then have y0: "y \<noteq> 0" by simp
  from exponent_bounds [OF y0] assms
  have a: "(2::real) powi e < 2 powi (exponent y + 1)"
    and b: "(2::real) powi exponent y < 2 powi (e + 1)"
    by linarith+
  from a have "e < exponent y + 1" by (rule powi_less_imp)
  moreover from b have "exponent y < e + 1" by (rule powi_less_imp)
  ultimately show ?thesis by simp
qed

lemma rne_of_int: "rne (of_int n) = n"
  by (simp add: rne_def)

lemma rne_minus: "rne (- r) = - rne r"
proof (cases "r = of_int \<lfloor>r\<rfloor>")
  case True
  then obtain n where "r = of_int n" ..
  then have "rne (- r) = rne (of_int (- n))" "rne r = n"
    by (simp_all add: rne_of_int)
  then show ?thesis by (simp only: rne_of_int)
next
  case False
  have fl: "\<lfloor>- r\<rfloor> = - \<lfloor>r\<rfloor> - 1"
  proof (rule floor_unique)
    have "of_int \<lfloor>r\<rfloor> \<le> r" by simp
    with False have "of_int \<lfloor>r\<rfloor> < r" by linarith
    moreover have "r < of_int \<lfloor>r\<rfloor> + 1" by linarith
    ultimately have "- (of_int \<lfloor>r\<rfloor> :: real) - 1 \<le> - r" "- r < - (of_int \<lfloor>r\<rfloor> :: real)"
      by linarith+
    then show "of_int (- \<lfloor>r\<rfloor> - 1) \<le> - r" "- r < of_int (- \<lfloor>r\<rfloor> - 1) + 1"
      by simp_all
  qed
  define f where "f = \<lfloor>r\<rfloor>"
  define d where "d = r - of_int f"
  have d': "- r - of_int (- f - 1) = 1 - d" by (simp add: d_def)
  have par: "even (- f - 1) = odd f" by simp
  show ?thesis
    unfolding rne_def fl
    unfolding f_def [symmetric] d' d_def [symmetric] par
    by (auto simp: field_simps)
qed

lemma exponent_minus: "exponent (- x) = exponent x"
  by (simp add: exponent_def)

lemma quantum_minus: "quantum (- x) = quantum x"
  by (simp add: quantum_def exponent_minus)

lemma nearest_minus: "nearest (- x) = - nearest x"
  by (simp add: nearest_def quantum_minus rne_minus)

lemma round64_minus: "round64 (- x) = - round64 x"
  by (simp add: round64_def nearest_minus)

lemma nearest_0: "nearest 0 = 0"
  by (simp add: nearest_def rne_def)

lemma nearest_on_grid:
  assumes "y = of_int n * 2 powi quantum y"
  shows "nearest y = y"
proof -
  have "y / 2 powi quantum y = of_int n"
    by (subst assms) simp
  then have "rne (y / 2 powi quantum y) = n" by (simp only: rne_of_int)
  then show ?thesis unfolding nearest_def using assms by simp
qed

lemma nearest_nearest_pos:
  assumes "0 < x"
  shows "nearest (nearest x) = nearest x"
proof -
  define e where "e = exponent x"
  define q where "q = quantum x"
  define n where "n = rne (x / 2 powi q)"
  define y where "y = nearest x"
  have y: "y = of_int n * 2 powi q" by (simp add: y_def nearest_def n_def q_def)
  from assms have x0: "x \<noteq> 0" by simp
  from exponent_bounds [OF x0] assms
  have lo: "2 powi e \<le> x" and hi: "x < 2 powi (e + 1)" by (simp_all add: e_def)
  show ?thesis
  proof (cases "- 1022 \<le> e")
    case True
    then have q: "q = e - 52" by (simp add: q_def quantum_def e_def)
    have "(2::real) powi (52 + (e - 52)) = 2 powi 52 * 2 powi (e - 52)"
      by (rule power_int_add) simp
    then have p52: "(2::real) powi e = of_int (2 ^ 52) * 2 powi q" by (simp add: q)
    have "(2::real) powi (53 + (e - 52)) = 2 powi 53 * 2 powi (e - 52)"
      by (rule power_int_add) simp
    then have p53: "(2::real) powi (e + 1) = of_int (2 ^ 53) * 2 powi q"
      by (simp add: q add.commute)
    from lo p52 have "of_int (2 ^ 52) \<le> x / 2 powi q" by (simp add: field_simps)
    then have n_lo: "2 ^ 52 \<le> n" unfolding n_def by (rule rne_ge)
    from hi p53 have "x / 2 powi q \<le> of_int (2 ^ 53)" by (simp add: field_simps)
    then have n_hi: "n \<le> 2 ^ 53" unfolding n_def by (rule rne_le)
    from n_lo have "(of_int (2 ^ 52) :: real) \<le> of_int n" by (simp only: of_int_le_iff)
    then have "of_int (2 ^ 52) * 2 powi q \<le> of_int n * (2::real) powi q"
      by (rule mult_right_mono) simp
    with p52 y have y_lo: "2 powi e \<le> y" by simp
    then have ypos: "0 < y" using zero_less_power_int [of "2::real" e] by linarith
    show ?thesis
    proof (cases "n = 2 ^ 53")
      case False
      with n_hi have "n < 2 ^ 53" by simp
      then have "(of_int n :: real) < of_int (2 ^ 53)" by (simp only: of_int_less_iff)
      then have "of_int n * 2 powi q < of_int (2 ^ 53) * (2::real) powi q"
        by (rule mult_strict_right_mono) simp
      with p53 y have "y < 2 powi (e + 1)" by simp
      with y_lo ypos have "exponent y = e" by (intro exponent_unique) simp_all
      with True have "quantum y = q" by (simp add: quantum_def q)
      with y have "y = of_int n * 2 powi quantum y" by simp
      then have "nearest y = y" by (rule nearest_on_grid)
      then show ?thesis by (simp add: y_def)
    next
      case n53: True
      with y p53 have ye: "y = 2 powi (e + 1)" by simp
      have "(2::real) powi (e + 1) < 2 powi (e + 1 + 1)"
        by (rule power_int_strict_increasing) simp_all
      with ye have "exponent y = e + 1" by (intro exponent_unique) simp_all
      with True have qy: "quantum y = e + 1 - 52" by (simp add: quantum_def)
      have "(2::real) powi (52 + (e + 1 - 52)) = 2 powi 52 * 2 powi (e + 1 - 52)"
        by (rule power_int_add) simp
      with ye qy have "y = of_int (2 ^ 52) * 2 powi quantum y" by (simp add: add.commute)
      then have "nearest y = y" by (rule nearest_on_grid)
      then show ?thesis by (simp add: y_def)
    qed
  next
    case False
    then have q: "q = - 1074" by (simp add: q_def quantum_def e_def)
    from False have "e + 1 \<le> - 1022" by simp
    then have "(2::real) powi (e + 1) \<le> 2 powi (- 1022)"
      by (intro power_int_increasing) simp_all
    moreover have "(2::real) powi (52 + (- 1074)) = 2 powi 52 * 2 powi (- 1074)"
      by (rule power_int_add) simp
    ultimately have "x \<le> of_int (2 ^ 52) * 2 powi q" using hi by (simp add: q)
    then have "x / 2 powi q \<le> of_int (2 ^ 52)" by (simp add: field_simps)
    then have n_hi: "n \<le> 2 ^ 52" unfolding n_def by (rule rne_le)
    show ?thesis
    proof (cases "y = 0")
      case True
      then show ?thesis by (simp add: y_def [symmetric] nearest_0)
    next
      case y0: False
      from n_hi have "(of_int n :: real) \<le> of_int (2 ^ 52)" by (simp only: of_int_le_iff)
      then have "of_int n * 2 powi q \<le> of_int (2 ^ 52) * (2::real) powi q"
        by (rule mult_right_mono) simp
      moreover have "(2::real) powi (52 + (- 1074)) = 2 powi 52 * 2 powi (- 1074)"
        by (rule power_int_add) simp
      ultimately have y_hi: "y \<le> 2 powi (- 1022)" using y by (simp add: q)
      have "0 \<le> y" unfolding y_def using assms by (simp add: nearest_nonneg)
      with y_hi exponent_bounds [OF y0]
      have "(2::real) powi exponent y < 2 powi (- 1021)" by simp
      then have "exponent y < - 1021" by (rule powi_less_imp)
      then have "quantum y = q" by (simp add: quantum_def q)
      with y have "y = of_int n * 2 powi quantum y" by simp
      then have "nearest y = y" by (rule nearest_on_grid)
      then show ?thesis by (simp add: y_def)
    qed
  qed
qed

lemma nearest_nearest: "nearest (nearest x) = nearest x"
proof -
  consider "x = 0" | "0 < x" | "x < 0" by linarith
  then show ?thesis
  proof cases
    case 1
    then show ?thesis by (simp add: nearest_0)
  next
    case 2
    then show ?thesis by (rule nearest_nearest_pos)
  next
    case 3
    then have "0 < - x" by simp
    from nearest_nearest_pos [OF this] show ?thesis by (simp add: nearest_minus)
  qed
qed

lemma is_binary64_round64: "is_binary64 (round64 x)"
proof -
  have "round64 (nearest x) = Fin (nearest x)" if "\<not> \<bar>nearest x\<bar> \<ge> 2 ^ 1024"
    using that by (simp add: round64_def nearest_nearest)
  then show ?thesis
    by (simp add: is_binary64_def round64_def)
qed

lemma is_binary64_plus: "is_binary64 (a + b)"
  by (cases a; cases b) (simp_all add: is_binary64_round64, simp_all add: is_binary64_def)

lemma is_binary64_minus: "is_binary64 (a - b)"
  by (simp add: minus_number_def is_binary64_plus)

lemma is_binary64_times: "is_binary64 (a * b)"
  by (cases a; cases b) (simp_all add: is_binary64_round64, simp_all add: is_binary64_def)

lemma is_binary64_divide: "is_binary64 (a / b)"
  by (cases a; cases b)
     (simp_all add: is_binary64_round64, simp_all add: is_binary64_def round64_def)

subsection \<open>Sums and differences against the first operand\<close>

lemma refund_keeps_nonneg:
  "\<not> b < 0 \<Longrightarrow> 0 \<le> a \<Longrightarrow> \<not> (b + a :: number) < 0"
  by (cases a; cases b) (simp_all add: zero_number_def round64_nonneg [unfolded zero_number_def])

lemma payment_keeps_nonneg:
  "\<not> b < 0 \<Longrightarrow> \<not> a \<le> 0 \<Longrightarrow> \<not> a > b \<Longrightarrow> \<not> (b - a :: number) < 0"
  by (cases a; cases b)
     (simp_all add: zero_number_def minus_number_def round64_nonneg [unfolded zero_number_def])

lemma add_negative_not_above:
  "is_binary64 b \<Longrightarrow> a < 0 \<Longrightarrow> \<not> b < b + a"
proof (cases a; cases b)
  fix y x
  assume bin: "is_binary64 b" and neg: "a < 0" and a: "a = Fin y" and b: "b = Fin x"
  from bin b have fx: "round64 x = Fin x" by (simp add: is_binary64_def)
  from neg a have "x + y \<le> x" by (simp add: zero_number_def)
  from round64_le_binary64 [OF fx this] have "round64 (x + y) \<le> Fin x" .
  then have "\<not> Fin x < round64 (x + y)" by (rule less_eq_not_less)
  with a b show "\<not> b < b + a" by simp
qed (simp_all add: zero_number_def)

lemma neg_of_pos: "(0::number) < a \<Longrightarrow> - a < 0"
  by (cases a) (simp_all add: zero_number_def)

lemma sub_positive_not_above:
  "is_binary64 b \<Longrightarrow> 0 < a \<Longrightarrow> \<not> b < b - a"
  unfolding minus_number_def by (rule add_negative_not_above) (simp_all add: neg_of_pos)

section \<open>Properties of the payment classes\<close>

text \<open>
  The code has no error types: a call that fails returns \<^verbatim>\<open>false\<close>. Where the
  specification names a typed error, the statement below is about the \<^verbatim>\<open>false\<close> returned
  under the condition the specification gives for that error; what is thrown is
  \<open>Inl\<close>, what is returned is \<open>Inr\<close>.
\<close>

lemmas class_defs =
  CreditCardPayment_def CreditCardPayment_processPayment_def CreditCardPayment_refund_def
  CreditCardPayment_calculateFees_def CashPayment_def CashPayment_processPayment_def
  GiftCardPayment_def GiftCardPayment_processPayment_def GiftCardPayment_refund_def

lemmas processor_defs = PaymentProcessor_processPayment_def processRefund_def send_def

lemmas bad_defs = Bad_CreditCardPayment_def Bad_CashPayment_def Bad_GiftCardPayment_def
  Bad_GiftCardPayment_processPayment_def Bad_PaymentMethod_refund_def
  Bad_PaymentMethod_calculateFees_def processWithRefund_def

lemmas ocp_defs = OCP_CreditCardPayment_def OCP_PayPalPayment_def OCP_UPIPayment_def
  OCP_BitcoinPayment_def process_def Checkout_processPayment_def

subsection \<open>One request to each class\<close>

lemma send_GiftCard_Refund:
  "send (GiftCard_at b) (Refund amount) =
     \<lparr> printed = [TextNum ''Gift card refund: $'' amount],
       state_after = GiftCard_at (b + amount), returned = Inr True \<rparr>"
  by (simp add: class_defs processor_defs)

lemma send_GiftCard_Process:
  "send (GiftCard_at b) (Process amount) =
     (if \<not> amount \<le> 0 \<and> \<not> amount > b then
        \<lparr> printed = [TextNum ''Processing gift card payment: $'' amount,
                     Text ''GiftCard payment successful''],
          state_after = GiftCard_at (b - amount), returned = Inr True \<rparr>
      else \<lparr> printed = [], state_after = GiftCard_at b, returned = Inr False \<rparr>)"
  by (simp add: class_defs processor_defs)

lemma send_CreditCard_Refund:
  "send CreditCardPayment (Refund amount) =
     \<lparr> printed = [TextNum ''Credit card refund: $'' amount],
       state_after = CreditCardPayment, returned = Inr True \<rparr>"
  by (simp add: class_defs processor_defs)

lemma send_CreditCard_Process:
  "send CreditCardPayment (Process amount) =
     \<lparr> printed = [TextNum ''Processing credit card payment: $'' amount,
                  Text ''CreditCard payment successful'',
                  TextNum ''Fees: $'' (amount * round64 0.03)],
       state_after = CreditCardPayment, returned = Inr True \<rparr>"
  by (simp add: class_defs processor_defs)

lemma send_Cash_Refund:
  "send CashPayment (Refund amount) =
     \<lparr> printed = [Text ''Cash payments are not refundable''],
       state_after = CashPayment, returned = Inr False \<rparr>"
  by (simp add: class_defs processor_defs)

lemma send_Cash_Process:
  "send CashPayment (Process amount) =
     \<lparr> printed = [TextNum ''Processing cash payment: $'' amount,
                  Text ''Cash payment successful''],
       state_after = CashPayment, returned = Inr True \<rparr>"
  by (simp add: class_defs processor_defs)

subsection \<open>Sequences of requests\<close>

lemma run_GiftCard_refunds:
  "returned (run (GiftCard_at b) (map Refund amounts)) = Inr (replicate (length amounts) True) \<and>
   state_after (run (GiftCard_at b) (map Refund amounts)) = GiftCard_at (foldl (+) b amounts)"
proof (induction amounts arbitrary: b)
  case Nil
  show ?case by simp
next
  case (Cons a amounts)
  show ?case
    by (simp add: send_GiftCard_Refund Let_def Cons.IH [of "b + a"])
qed

text \<open>
  The sums are the rounded ones: after the refunds of \<open>2 ^ 53\<close> and of 1 a fresh card
  holds 9007199254741992, the 1 being lost in the rounding.
\<close>

lemma refunds_are_rounded:
  "balance (self (state_after
     (run GiftCardPayment [Refund (Fin (2 ^ 53)), Refund (Fin 1)]))) = Fin 9007199254741992"
  by (simp add: class_defs processor_defs Let_def round64_eval)

lemma run_CreditCard_refunds:
  "returned (run CreditCardPayment (map Refund amounts)) = Inr (replicate (length amounts) True)"
  by (induction amounts) (simp_all add: send_CreditCard_Refund Let_def)

text \<open>No sequence of requests to one of the three classes ends in an exception.\<close>

lemma run_GiftCard_returns:
  "\<exists>oks b'. returned (run (GiftCard_at b) rs) = Inr oks \<and>
            state_after (run (GiftCard_at b) rs) = GiftCard_at b'"
proof (induction rs arbitrary: b)
  case Nil
  show ?case by auto
next
  case (Cons r rs)
  show ?case
  proof (cases r)
    case (Process amount)
    show ?thesis
    proof (cases "\<not> amount \<le> 0 \<and> \<not> amount > b")
      case True
      from Cons.IH [of "b - amount"] obtain oks b' where
        "returned (run (GiftCard_at (b - amount)) rs) = Inr oks"
        "state_after (run (GiftCard_at (b - amount)) rs) = GiftCard_at b'" by blast
      with True Process show ?thesis by (auto simp add: send_GiftCard_Process Let_def)
    next
      case False
      from Cons.IH [of b] obtain oks b' where
        "returned (run (GiftCard_at b) rs) = Inr oks"
        "state_after (run (GiftCard_at b) rs) = GiftCard_at b'" by blast
      with False Process show ?thesis by (auto simp add: send_GiftCard_Process Let_def)
    qed
  next
    case (Refund amount)
    from Cons.IH [of "b + amount"] obtain oks b' where
      "returned (run (GiftCard_at (b + amount)) rs) = Inr oks"
      "state_after (run (GiftCard_at (b + amount)) rs) = GiftCard_at b'" by blast
    with Refund show ?thesis by (auto simp add: send_GiftCard_Refund Let_def)
  qed
qed

lemma run_CreditCard_returns:
  "\<exists>oks. returned (run CreditCardPayment rs) = Inr oks \<and>
         state_after (run CreditCardPayment rs) = CreditCardPayment"
proof (induction rs)
  case Nil
  show ?case by simp
next
  case (Cons r rs)
  then obtain oks where "returned (run CreditCardPayment rs) = Inr oks"
    "state_after (run CreditCardPayment rs) = CreditCardPayment" by blast
  then show ?case
    by (cases r) (simp_all add: send_CreditCard_Process send_CreditCard_Refund Let_def)
qed

lemma run_Cash_returns:
  "\<exists>oks. returned (run CashPayment rs) = Inr oks \<and>
         state_after (run CashPayment rs) = CashPayment"
proof (induction rs)
  case Nil
  show ?case by simp
next
  case (Cons r rs)
  then obtain oks where "returned (run CashPayment rs) = Inr oks"
    "state_after (run CashPayment rs) = CashPayment" by blast
  then show ?case
    by (cases r) (simp_all add: send_Cash_Process send_Cash_Refund Let_def)
qed

text \<open>
  The balance of a gift card is never negative as long as it does not start negative and
  no refund has a negative amount (or \<^verbatim>\<open>NaN\<close>): payments are guarded by the balance,
  and a refund of a non-negative amount does not bring a balance below zero.
\<close>

lemma balance_nonneg_without_negative_refunds:
  "\<not> b < 0 \<Longrightarrow> \<forall>amount. Refund amount \<in> set rs \<longrightarrow> 0 \<le> amount \<Longrightarrow>
   \<not> balance (self (state_after (run (GiftCard_at b) rs))) < 0"
proof (induction rs arbitrary: b)
  case Nil
  then show ?case by simp
next
  case (Cons r rs)
  from Cons.prems(2) have nn: "\<forall>amount. Refund amount \<in> set rs \<longrightarrow> 0 \<le> amount"
    by simp
  show ?case
  proof (cases r)
    case (Process amount)
    show ?thesis
    proof (cases "\<not> amount \<le> 0 \<and> \<not> amount > b")
      case True
      with Cons.prems(1) have "\<not> b - amount < 0" by (simp add: payment_keeps_nonneg)
      from Cons.IH [OF this nn] True Process show ?thesis
        by (auto simp add: send_GiftCard_Process Let_def)
    next
      case False
      from Cons.IH [OF Cons.prems(1) nn] False Process show ?thesis
        by (auto simp add: send_GiftCard_Process Let_def)
    qed
  next
    case (Refund amount)
    with Cons.prems(2) have "0 \<le> amount" by simp
    with Cons.prems(1) have "\<not> b + amount < 0" by (simp add: refund_keeps_nonneg)
    from Cons.IH [OF this nn] Refund show ?thesis
      by (auto simp add: send_GiftCard_Refund Let_def)
  qed
qed

text \<open>
  The balance of a gift card that starts at a binary64 value is a binary64 value after
  every sequence of requests.
\<close>

lemma run_GiftCard_binary64:
  "is_binary64 b \<Longrightarrow> is_binary64 (balance (self (state_after (run (GiftCard_at b) rs))))"
proof (induction rs arbitrary: b)
  case Nil
  then show ?case by simp
next
  case (Cons r rs)
  show ?case
  proof (cases r)
    case (Process amount)
    from Cons.IH [OF is_binary64_minus [of b amount]] Cons.IH [OF Cons.prems] Process
    show ?thesis by (auto simp add: send_GiftCard_Process Let_def)
  next
    case (Refund amount)
    from Cons.IH [OF is_binary64_plus [of b amount]] Refund
    show ?thesis by (auto simp add: send_GiftCard_Refund Let_def)
  qed
qed

text \<open>In the violation example the exceptions reach the caller of the processor.\<close>

lemma processWithRefund_throws:
  "returned (processWithRefund Bad_CashPayment amount) =
     Inl (Error ''Cash payments cannot be refunded!'')"
  "amount > Fin 1000 \<Longrightarrow>
   returned (processWithRefund Bad_GiftCardPayment amount) =
     Inl (Error ''Insufficient gift card balance!'')"
  by (simp_all add: bad_defs)

section \<open>The claims\<close>

subsection \<open>Refunds\<close>

text \<open>
  Claim C1 as the specification has it fails: a refund that follows a successful refund
  does not fail. In the scenario of the specification (a fresh gift card, a payment of
  400, a refund of 400, then a refund of 100) all three calls return \<^verbatim>\<open>true\<close> and
  the card ends at 1100: 500 came back for a payment of 400.
\<close>

theorem second_refund_succeeds_counterexample:
  "returned (run GiftCardPayment [Process (Fin 400), Refund (Fin 400), Refund (Fin 100)]) =
     Inr [True, True, True] \<and>
   balance (self (state_after
     (run GiftCardPayment [Process (Fin 400), Refund (Fin 400), Refund (Fin 100)]))) = Fin 1100"
  by (simp add: class_defs processor_defs Let_def round64_eval)

text \<open>
  Claim C1, amended. The code keeps no transaction and no record of earlier refunds, so
  every refund of a positive amount on a refundable class succeeds, however many came
  before: any sequence of such refunds sent to a gift card or to a credit card returns
  \<^verbatim>\<open>true\<close> each time. Nothing bounds what has been refunded: the balance of the gift
  card after the sequence is the balance before with the amounts added one after the
  other, each sum rounded as the numbers of the language are.
\<close>

theorem positive_refunds_always_succeed:
  "\<forall>amount \<in> set amounts. 0 < amount \<Longrightarrow>
   returned (run (GiftCard_at b) (map Refund amounts)) = Inr (replicate (length amounts) True) \<and>
   balance (self (state_after (run (GiftCard_at b) (map Refund amounts)))) =
     foldl (+) b amounts \<and>
   returned (run CreditCardPayment (map Refund amounts)) = Inr (replicate (length amounts) True)"
  by (simp add: run_GiftCard_refunds run_CreditCard_refunds)

theorem positive_refunds_always_succeed_witness:
  "0 < Fin 400 \<and> 0 < Fin 100 \<and>
   returned (run (GiftCard_at (Fin 600)) (map Refund [Fin 400, Fin 100])) = Inr [True, True] \<and>
   balance (self (state_after (run (GiftCard_at (Fin 600)) (map Refund [Fin 400, Fin 100])))) =
     Fin 1100 \<and>
   returned (run CreditCardPayment (map Refund [Fin 400, Fin 100])) = Inr [True, True]"
proof -
  have h: "\<forall>amount \<in> set [Fin 400, Fin 100]. 0 < amount"
    by (simp add: zero_number_def)
  have s: "foldl (+) (Fin 600) [Fin 400, Fin 100] = Fin 1100"
    by (simp add: round64_eval)
  from positive_refunds_always_succeed [OF h, of "Fin 600"] h s show ?thesis
    by (simp add: numeral_2_eq_2)
qed

text \<open>
  Claim C2. For every object of the interface that is not refundable
  (\<^verbatim>\<open>isRefundable()\<close> is false, or it has no \<^verbatim>\<open>refund\<close>), every amount and every state
  of the object, \<^verbatim>\<open>processRefund\<close> returns \<^verbatim>\<open>false\<close>: it returns and does not throw, and it
  leaves the object as it was. The statement is about any object, so the decision rests
  on the two capability checks alone and not on which class the object is.
\<close>

theorem processRefund_without_capability:
  "\<not> isRefundable payment (self payment) \<or> refund payment = None \<Longrightarrow>
   returned (processRefund payment amount) = Inr False \<and>
   state_after (processRefund payment amount) = payment"
  by (auto simp: processRefund_def)

theorem processRefund_without_capability_witness:
  "\<not> isRefundable CashPayment (self CashPayment) \<and>
   refund CashPayment = None \<and>
   returned (processRefund CashPayment (Fin 10)) = Inr False \<and>
   state_after (processRefund CashPayment (Fin 10)) = CashPayment"
proof -
  have h: "\<not> isRefundable CashPayment (self CashPayment)" "refund CashPayment = None"
    by (simp_all add: CashPayment_def)
  from h(1) have "\<not> isRefundable CashPayment (self CashPayment) \<or> refund CashPayment = None"
    by blast
  from processRefund_without_capability [OF this, of "Fin 10"] h show ?thesis by blast
qed

text \<open>
  Claim C10 as it is written fails in its last part: a negative amount does not always
  lower the balance. On a balance of 1000 the refund of \<open>- 1 / 2 ^ 60\<close> returns
  \<^verbatim>\<open>true\<close> and leaves the balance at 1000, since the sum rounds back to 1000.
\<close>

theorem absorbed_negative_refund_counterexample:
  "Fin (- (1 / 2 ^ 60)) < 0 \<and>
   GiftCardPayment_refund \<lparr>balance = Fin 1000\<rparr> (Fin (- (1 / 2 ^ 60))) =
     \<lparr> printed = [TextNum ''Gift card refund: $'' (Fin (- (1 / 2 ^ 60)))],
       state_after = \<lparr>balance = Fin 1000\<rparr>, returned = Inr True \<rparr> \<and>
   \<not> balance (state_after
        (GiftCardPayment_refund \<lparr>balance = Fin 1000\<rparr> (Fin (- (1 / 2 ^ 60))))) < Fin 1000"
  by (simp add: GiftCardPayment_refund_def round64_eval)

text \<open>
  Claim C10, amended. \<^verbatim>\<open>GiftCardPayment.refund\<close> takes any amount, zero and negative ones
  too: it prints its line, sets the balance to the sum \<^verbatim>\<open>balance + amount\<close> of the
  language (the exact sum rounded to binary64) and returns \<^verbatim>\<open>true\<close>, with no check of the
  amount and no transaction in sight (its only argument is the amount); the same holds
  through \<^verbatim>\<open>processRefund\<close>. A negative amount never leaves the balance above what it
  was; it leaves it unchanged when the sum rounds back to the balance.
\<close>

theorem gift_card_refund_adds_any_amount:
  "GiftCardPayment_refund this amount =
     \<lparr> printed = [TextNum ''Gift card refund: $'' amount],
       state_after = this\<lparr>balance := balance this + amount\<rparr>, returned = Inr True \<rparr> \<and>
   returned (processRefund (GiftCardPayment\<lparr>self := this\<rparr>) amount) = Inr True \<and>
   balance (self (state_after (processRefund (GiftCardPayment\<lparr>self := this\<rparr>) amount))) =
     balance this + amount \<and>
   (amount < 0 \<and> is_binary64 (balance this) \<longrightarrow>
      \<not> balance this < balance (state_after (GiftCardPayment_refund this amount)))"
  by (simp add: class_defs processor_defs add_negative_not_above)

theorem gift_card_refund_adds_any_amount_witness:
  "Fin (- 50) < 0 \<and> is_binary64 (Fin 1000) \<and>
   GiftCardPayment_refund \<lparr>balance = Fin 1000\<rparr> (Fin (- 50)) =
     \<lparr> printed = [TextNum ''Gift card refund: $'' (Fin (- 50))],
       state_after = \<lparr>balance = Fin 950\<rparr>, returned = Inr True \<rparr> \<and>
   returned (processRefund (GiftCard_at (Fin 1000)) (Fin (- 50))) = Inr True \<and>
   balance (self (state_after (processRefund (GiftCard_at (Fin 1000)) (Fin (- 50))))) = Fin 950 \<and>
   \<not> Fin 1000 < Fin 950"
proof -
  have s: "Fin 1000 + Fin (- 50) = Fin 950" by (simp add: round64_eval)
  have h: "Fin (- 50) < 0" "is_binary64 (Fin 1000)"
    by (simp_all add: is_binary64_def round64_eval)
  from gift_card_refund_adds_any_amount [of "\<lparr>balance = Fin 1000\<rparr>" "Fin (- 50)"] h s
  show ?thesis by simp
qed

subsection \<open>The balance of a gift card\<close>

text \<open>
  Claim C3 asks that no sequence of payments and refunds brings the balance below zero.
  \<^verbatim>\<open>processPayment\<close> rejects an amount that is not positive, \<^verbatim>\<open>refund\<close> does not: on a
  fresh gift card (balance 1000) the refund of \<open>- 2000\<close> is accepted and leaves the
  balance at \<open>- 1000\<close>.
\<close>

theorem negative_refund_overdraws_gift_card:
  "returned (processRefund GiftCardPayment (Fin (- 2000))) = Inr True \<and>
   balance (self (state_after (processRefund GiftCardPayment (Fin (- 2000))))) = Fin (- 1000)"
  by (simp add: class_defs processRefund_def round64_eval)

text \<open>
  Claim C9. When the amount is at most 0 or exceeds the balance,
  \<^verbatim>\<open>GiftCardPayment.processPayment\<close> returns \<^verbatim>\<open>false\<close>, prints nothing and leaves the
  object, and so the balance, exactly as it was; so does the processor's
  \<^verbatim>\<open>processPayment\<close> on a gift card in that state.
\<close>

theorem gift_card_rejection_keeps_balance:
  "amount \<le> 0 \<or> amount > balance this \<Longrightarrow>
   GiftCardPayment_processPayment this amount =
     \<lparr> printed = [], state_after = this, returned = Inr False \<rparr> \<and>
   PaymentProcessor_processPayment (GiftCardPayment\<lparr>self := this\<rparr>) amount =
     \<lparr> printed = [], state_after = GiftCardPayment\<lparr>self := this\<rparr>, returned = Inr False \<rparr>"
  by (auto simp: class_defs processor_defs)

theorem gift_card_rejection_keeps_balance_witness:
  "(Fin 1500 \<le> 0 \<or> Fin 1500 > balance \<lparr>balance = Fin 1000\<rparr>) \<and>
   GiftCardPayment_processPayment \<lparr>balance = Fin 1000\<rparr> (Fin 1500) =
     \<lparr> printed = [], state_after = \<lparr>balance = Fin 1000\<rparr>, returned = Inr False \<rparr> \<and>
   PaymentProcessor_processPayment (GiftCard_at (Fin 1000)) (Fin 1500) =
     \<lparr> printed = [], state_after = GiftCard_at (Fin 1000), returned = Inr False \<rparr>"
proof -
  have h: "Fin 1500 \<le> 0 \<or> Fin 1500 > balance \<lparr>balance = Fin 1000\<rparr>" by simp
  from gift_card_rejection_keeps_balance [OF h] h show ?thesis by blast
qed

text \<open>
  Claim C8. \<^verbatim>\<open>processPayment\<close> of the credit card and of cash, which track no balance,
  returns \<^verbatim>\<open>true\<close> for every amount, directly and through the processor; in the
  Open/Closed example \<^verbatim>\<open>process\<close> succeeds for every method once \<^verbatim>\<open>validatePayment\<close>
  has accepted the amount. For a positive amount the gift card's \<^verbatim>\<open>processPayment\<close>
  returns \<^verbatim>\<open>false\<close> exactly when the amount exceeds the balance.
\<close>

theorem processPayment_fails_only_on_balance:
  "returned (CreditCardPayment_processPayment this amount) = Inr True \<and>
   returned (CashPayment_processPayment this amount) = Inr True \<and>
   returned (PaymentProcessor_processPayment CreditCardPayment amount) = Inr True \<and>
   returned (PaymentProcessor_processPayment CashPayment amount) = Inr True \<and>
   (validatePayment method amount \<longrightarrow> fst (process method amount)) \<and>
   (0 < amount \<longrightarrow>
      returned (GiftCardPayment_processPayment gc amount) = Inr (\<not> amount > balance gc) \<and>
      returned (PaymentProcessor_processPayment (GiftCard_at b) amount) = Inr (\<not> amount > b))"
  by (auto simp add: class_defs processor_defs process_def dest: less_not_less_eq)

theorem processPayment_fails_only_on_balance_witness:
  "returned (CreditCardPayment_processPayment () (Fin 100)) = Inr True \<and>
   returned (CashPayment_processPayment () (Fin 100)) = Inr True \<and>
   returned (PaymentProcessor_processPayment CreditCardPayment (Fin 100)) = Inr True \<and>
   returned (PaymentProcessor_processPayment CashPayment (Fin 100)) = Inr True \<and>
   fst (process OCP_PayPalPayment (Fin 100)) \<and>
   returned (GiftCardPayment_processPayment \<lparr>balance = Fin 1000\<rparr> (Fin 100)) = Inr True \<and>
   returned (PaymentProcessor_processPayment (GiftCard_at (Fin 50)) (Fin 100)) = Inr False"
  using processPayment_fails_only_on_balance
          [of "()" "Fin 100" OCP_PayPalPayment "\<lparr>balance = Fin 1000\<rparr>" "Fin 50"]
  by (simp add: OCP_PayPalPayment_def zero_number_def)

subsection \<open>Exceptions\<close>

text \<open>
  Claim C4 as the specification has it fails on the classes of the violation example,
  among them the \<^verbatim>\<open>CashPayment.refund\<close> that throws: \<^verbatim>\<open>processWithRefund\<close> on a cash
  payment of 100 ends in the exception, which reaches the caller.
\<close>

theorem processWithRefund_cash_throws_counterexample:
  "returned (processWithRefund Bad_CashPayment (Fin 100)) =
     Inl (Error ''Cash payments cannot be refunded!'')"
  by (simp add: bad_defs)

text \<open>
  Claim C4, amended. In the compliant design no call of the processor throws: for every
  amount and every balance, \<^verbatim>\<open>processPayment\<close> (with its fee step) and \<^verbatim>\<open>processRefund\<close>
  on the credit card, on cash and on the gift card return a boolean, and so does every
  call of every sequence of such calls. The methods that throw belong to the violation
  example only, where \<^verbatim>\<open>processWithRefund\<close> lets the exception through: for cash at
  every amount, for a fresh gift card at every amount above its balance of 1000.
\<close>

theorem compliant_processor_never_throws:
  "returned (PaymentProcessor_processPayment CreditCardPayment amount) = Inr True \<and>
   returned (PaymentProcessor_processPayment CashPayment amount) = Inr True \<and>
   returned (PaymentProcessor_processPayment (GiftCard_at b) amount) =
     Inr (\<not> amount \<le> 0 \<and> \<not> amount > b) \<and>
   returned (processRefund CreditCardPayment amount) = Inr True \<and>
   returned (processRefund CashPayment amount) = Inr False \<and>
   returned (processRefund (GiftCard_at b) amount) = Inr True \<and>
   \<not> isl (returned (run CreditCardPayment rs)) \<and>
   \<not> isl (returned (run CashPayment rs)) \<and>
   \<not> isl (returned (run (GiftCard_at b) rs)) \<and>
   isl (returned (processWithRefund Bad_CashPayment amount)) \<and>
   (amount > Fin 1000 \<longrightarrow> isl (returned (processWithRefund Bad_GiftCardPayment amount)))"
proof -
  have "returned (PaymentProcessor_processPayment CreditCardPayment amount) = Inr True"
    and "returned (PaymentProcessor_processPayment CashPayment amount) = Inr True"
    and "returned (PaymentProcessor_processPayment (GiftCard_at b) amount) =
           Inr (\<not> amount \<le> 0 \<and> \<not> amount > b)"
    and "returned (processRefund CreditCardPayment amount) = Inr True"
    and "returned (processRefund CashPayment amount) = Inr False"
    and "returned (processRefund (GiftCard_at b) amount) = Inr True"
    by (simp_all add: class_defs processor_defs)
  moreover have "\<not> isl (returned (run CreditCardPayment rs))"
    using run_CreditCard_returns [of rs] by auto
  moreover have "\<not> isl (returned (run CashPayment rs))"
    using run_Cash_returns [of rs] by auto
  moreover have "\<not> isl (returned (run (GiftCard_at b) rs))"
    using run_GiftCard_returns [of b rs] by auto
  moreover have "isl (returned (processWithRefund Bad_CashPayment amount))"
    by (simp add: processWithRefund_throws(1))
  moreover have "amount > Fin 1000 \<longrightarrow> isl (returned (processWithRefund Bad_GiftCardPayment amount))"
    by (simp add: processWithRefund_throws(2))
  ultimately show ?thesis by simp
qed

theorem compliant_processor_never_throws_witness:
  "returned (PaymentProcessor_processPayment CreditCardPayment (Fin 1500)) = Inr True \<and>
   returned (PaymentProcessor_processPayment CashPayment (Fin 1500)) = Inr True \<and>
   returned (PaymentProcessor_processPayment (GiftCard_at (Fin 1000)) (Fin 1500)) = Inr False \<and>
   returned (processRefund CreditCardPayment (Fin 1500)) = Inr True \<and>
   returned (processRefund CashPayment (Fin 1500)) = Inr False \<and>
   returned (processRefund (GiftCard_at (Fin 1000)) (Fin 1500)) = Inr True \<and>
   \<not> isl (returned (run CreditCardPayment [Process (Fin 100), Refund (Fin 50)])) \<and>
   \<not> isl (returned (run CashPayment [Process (Fin 100), Refund (Fin 50)])) \<and>
   \<not> isl (returned (run (GiftCard_at (Fin 1000)) [Process (Fin 100), Refund (Fin 50)])) \<and>
   isl (returned (processWithRefund Bad_CashPayment (Fin 1500))) \<and>
   isl (returned (processWithRefund Bad_GiftCardPayment (Fin 1500)))"
  using compliant_processor_never_throws
          [of "Fin 1500" "Fin 1000" "[Process (Fin 100), Refund (Fin 50)]"]
  by (simp add: zero_number_def)

subsection \<open>Validation and success of a payment\<close>




text \<open>
  Claim C6 as the specification has it fails for the balance-tracked kind: the gift card
  declares no ceiling, and a payment of 1500 from a fresh card (balance 1000) is positive
  and still fails, the balance staying at 1000.
\<close>

theorem gift_card_payment_above_balance_counterexample:
  "returned (PaymentProcessor_processPayment GiftCardPayment (Fin 1500)) = Inr False \<and>
   balance (self (state_after (PaymentProcessor_processPayment GiftCardPayment (Fin 1500)))) =
     Fin 1000"
  by (simp add: class_defs processor_defs zero_number_def)

text \<open>
  Claim C6, amended. For the four classes of the Open/Closed example \<^verbatim>\<open>process\<close>
  succeeds for every amount that is positive and within the ceiling of the class. For the
  gift card the payment succeeds for every amount that is positive and at most the
  balance, and then the balance after is the difference \<^verbatim>\<open>balance - amount\<close> of the
  language (the exact difference rounded to binary64), which is not negative and not above
  the balance before; an amount above the balance fails and leaves the balance as it was.
\<close>

theorem process_succeeds_within_ceiling_and_balance:
  "(0 < amount \<and> amount \<le> Fin 10000 \<longrightarrow> fst (process OCP_CreditCardPayment amount)) \<and>
   (0 < amount \<longrightarrow> fst (process OCP_PayPalPayment amount)) \<and>
   (0 < amount \<and> amount \<le> Fin 100000 \<longrightarrow> fst (process OCP_UPIPayment amount)) \<and>
   (0 < amount \<longrightarrow> fst (process OCP_BitcoinPayment amount)) \<and>
   (0 < amount \<and> amount \<le> b \<longrightarrow>
      returned (PaymentProcessor_processPayment (GiftCard_at b) amount) = Inr True \<and>
      balance (self (state_after (PaymentProcessor_processPayment (GiftCard_at b) amount))) =
        b - amount \<and>
      (is_binary64 b \<longrightarrow> \<not> b < b - amount) \<and> \<not> b - amount < 0) \<and>
   (amount > b \<longrightarrow>
      returned (PaymentProcessor_processPayment (GiftCard_at b) amount) = Inr False \<and>
      balance (self (state_after (PaymentProcessor_processPayment (GiftCard_at b) amount))) = b)"
proof -
  have ocp: "0 < amount \<and> amount \<le> Fin 10000 \<longrightarrow> fst (process OCP_CreditCardPayment amount)"
    "0 < amount \<longrightarrow> fst (process OCP_PayPalPayment amount)"
    "0 < amount \<and> amount \<le> Fin 100000 \<longrightarrow> fst (process OCP_UPIPayment amount)"
    "0 < amount \<longrightarrow> fst (process OCP_BitcoinPayment amount)"
    by (simp_all add: ocp_defs)
  have ok: "returned (PaymentProcessor_processPayment (GiftCard_at b) amount) = Inr True \<and>
      balance (self (state_after (PaymentProcessor_processPayment (GiftCard_at b) amount))) =
        b - amount \<and>
      (is_binary64 b \<longrightarrow> \<not> b < b - amount) \<and> \<not> b - amount < 0"
    if h: "0 < amount \<and> amount \<le> b"
  proof -
    from h have g: "\<not> amount \<le> 0" "\<not> amount > b"
      by (simp_all add: less_not_less_eq less_eq_not_less)
    from h have "\<not> b < 0" by (cases amount; cases b) (simp_all add: zero_number_def)
    with g have "\<not> b - amount < 0" by (simp add: payment_keeps_nonneg)
    moreover from h have "is_binary64 b \<longrightarrow> \<not> b < b - amount"
      by (simp add: sub_positive_not_above)
    ultimately show ?thesis using g by (simp add: class_defs processor_defs)
  qed
  have no: "amount > b \<longrightarrow>
      returned (PaymentProcessor_processPayment (GiftCard_at b) amount) = Inr False \<and>
      balance (self (state_after (PaymentProcessor_processPayment (GiftCard_at b) amount))) = b"
    by (simp add: class_defs processor_defs)
  from ocp ok no show ?thesis by blast
qed

theorem process_succeeds_within_ceiling_and_balance_witness:
  "fst (process OCP_CreditCardPayment (Fin 100)) \<and>
   fst (process OCP_PayPalPayment (Fin 200)) \<and>
   fst (process OCP_UPIPayment (Fin 500)) \<and>
   fst (process OCP_BitcoinPayment (Fin 500)) \<and>
   returned (PaymentProcessor_processPayment (GiftCard_at (Fin 1000)) (Fin 400)) = Inr True \<and>
   balance (self (state_after
     (PaymentProcessor_processPayment (GiftCard_at (Fin 1000)) (Fin 400)))) = Fin 600 \<and>
   balance (self (state_after
     (PaymentProcessor_processPayment (GiftCard_at (Fin 1000)) (Fin (1 / 2 ^ 60))))) =
     Fin 1000 \<and>
   returned (PaymentProcessor_processPayment (GiftCard_at (Fin 1000)) (Fin 1500)) = Inr False \<and>
   balance (self (state_after
     (PaymentProcessor_processPayment (GiftCard_at (Fin 1000)) (Fin 1500)))) = Fin 1000"
proof -
  from process_succeeds_within_ceiling_and_balance [of "Fin 100" "Fin 1000"]
    process_succeeds_within_ceiling_and_balance [of "Fin 200" "Fin 1000"]
    process_succeeds_within_ceiling_and_balance [of "Fin 500" "Fin 1000"]
    process_succeeds_within_ceiling_and_balance [of "Fin 400" "Fin 1000"]
    process_succeeds_within_ceiling_and_balance [of "Fin (1 / 2 ^ 60)" "Fin 1000"]
    process_succeeds_within_ceiling_and_balance [of "Fin 1500" "Fin 1000"]
  show ?thesis by (simp add: round64_eval)
qed

subsection \<open>Fees\<close>

text \<open>
  Claim C7. For every object that has no \<^verbatim>\<open>calculateFees\<close> and every amount, the fee
  query of the specification returns 0: it returns, prints nothing, calls no method of
  the object and leaves it as it was. The processor of the repository has no fee step for
  such an object either: its \<^verbatim>\<open>processPayment\<close> returns or throws exactly what the
  object's own \<^verbatim>\<open>processPayment\<close> does, leaves the object as that call left it, and
  prints that call's lines followed only by the success line when the call returned
  \<^verbatim>\<open>true\<close>; no fee is computed and nothing of a fee can fail.
\<close>

theorem no_fees_without_calculateFees:
  "calculateFees payment = None \<Longrightarrow>
   getFees payment amount = \<lparr> printed = [], state_after = payment, returned = Inr 0 \<rparr> \<and>
   returned (PaymentProcessor_processPayment payment amount) =
     returned (processPayment payment (self payment) amount) \<and>
   state_after (PaymentProcessor_processPayment payment amount) =
     payment\<lparr>self := state_after (processPayment payment (self payment) amount)\<rparr> \<and>
   printed (PaymentProcessor_processPayment payment amount) =
     printed (processPayment payment (self payment) amount) @
     (if returned (processPayment payment (self payment) amount) = Inr True
      then [Text (getPaymentType payment
                    (state_after (processPayment payment (self payment) amount)) @
                  '' payment successful'')]
      else [])"
  by (simp add: getFees_def PaymentProcessor_processPayment_def Let_def split: sum.splits)

theorem no_fees_without_calculateFees_witness:
  "calculateFees CashPayment = None \<and>
   getFees CashPayment (Fin 50) = \<lparr> printed = [], state_after = CashPayment, returned = Inr 0 \<rparr> \<and>
   returned (PaymentProcessor_processPayment CashPayment (Fin 50)) = Inr True \<and>
   printed (PaymentProcessor_processPayment CashPayment (Fin 50)) =
     [TextNum ''Processing cash payment: $'' (Fin 50), Text ''Cash payment successful'']"
proof -
  have h: "calculateFees CashPayment = None"
    by (simp add: CashPayment_def)
  from no_fees_without_calculateFees [OF h, of "Fin 50"] h show ?thesis
    by (simp add: class_defs)
qed

end
